theory Spec2Isabelle
  imports Main "HOL-Library.Char_ord" "HOL-Library.List_Lexorder"
begin

section \<open>Strings and the regular expressions of agent.py\<close>

text \<open>
  Python \<open>str\<close> values are modelled as \<open>string\<close>: a \<open>char\<close> is a code point below 256.
  On these code points \<open>str.lower\<close>, \<open>str.strip\<close>, \<open>\\d\<close>, \<open>\\s\<close>, \<open>\\w\<close> and \<open>re.I\<close> act as
  defined below. The letters of the patterns of agent.py are ASCII letters; under \<open>re.I\<close> such
  a letter matches, below 256, its two ASCII cases and nothing else.
\<close>

definition apostrophe :: char where
  "apostrophe = CHR 0x27"

definition backslash :: char where
  "backslash = CHR 0x5C"

definition newline :: char where
  "newline = CHR 0x0A"

text \<open>\<open>\\d\<close>: the decimal digits; below 256 these are 0 to 9 (the superscript digits and the
  fractions are no decimal digits).\<close>

definition is_digit :: "char \<Rightarrow> bool" where
  "is_digit c = (c \<in> set ''0123456789'')"

text \<open>The classes \<open>[A-Z]\<close>, \<open>[a-z]\<close> and \<open>[A-Za-z]\<close>.\<close>

definition is_upper :: "char \<Rightarrow> bool" where
  "is_upper c = (c \<in> set ''ABCDEFGHIJKLMNOPQRSTUVWXYZ'')"

definition is_lower :: "char \<Rightarrow> bool" where
  "is_lower c = (c \<in> set ''abcdefghijklmnopqrstuvwxyz'')"

definition is_alpha :: "char \<Rightarrow> bool" where
  "is_alpha c = (is_upper c \<or> is_lower c)"

text \<open>\<open>\\s\<close> and \<open>str.strip\<close>: tab, line feed, vertical tab, form feed, carriage return,
  the four separators 0x1C..0x1F, the space, the next-line control 0x85 and the no-break
  space 0xA0.\<close>

definition is_space :: "char \<Rightarrow> bool" where
  "is_space c = (c \<in> set [CHR 0x09, CHR 0x0A, CHR 0x0B, CHR 0x0C, CHR 0x0D,
                            CHR 0x1C, CHR 0x1D, CHR 0x1E, CHR 0x1F, CHR 0x20,
                            CHR 0x85, CHR 0xA0])"

text \<open>The capital letters above 0x7F, 0xC0 to 0xDE without the multiplication sign 0xD7, and
  their small letters, 0x20 higher.\<close>

definition latin_upper :: string where
  "latin_upper = [CHR 0xC0, CHR 0xC1, CHR 0xC2, CHR 0xC3, CHR 0xC4, CHR 0xC5, CHR 0xC6, CHR 0xC7,
                   CHR 0xC8, CHR 0xC9, CHR 0xCA, CHR 0xCB, CHR 0xCC, CHR 0xCD, CHR 0xCE, CHR 0xCF,
                   CHR 0xD0, CHR 0xD1, CHR 0xD2, CHR 0xD3, CHR 0xD4, CHR 0xD5, CHR 0xD6, CHR 0xD8,
                   CHR 0xD9, CHR 0xDA, CHR 0xDB, CHR 0xDC, CHR 0xDD, CHR 0xDE]"

definition latin_lower :: string where
  "latin_lower = [CHR 0xE0, CHR 0xE1, CHR 0xE2, CHR 0xE3, CHR 0xE4, CHR 0xE5, CHR 0xE6, CHR 0xE7,
                   CHR 0xE8, CHR 0xE9, CHR 0xEA, CHR 0xEB, CHR 0xEC, CHR 0xED, CHR 0xEE, CHR 0xEF,
                   CHR 0xF0, CHR 0xF1, CHR 0xF2, CHR 0xF3, CHR 0xF4, CHR 0xF5, CHR 0xF6, CHR 0xF8,
                   CHR 0xF9, CHR 0xFA, CHR 0xFB, CHR 0xFC, CHR 0xFD, CHR 0xFE]"

text \<open>\<open>\\w\<close>: letters, digits and the underscore. Above 0x7F the letters are the two ordinal
  indicators, the micro sign and 0xC0 to 0xFF without the multiplication and the division
  sign; the superscript digits and the three fractions count as digits.\<close>

definition is_word_char :: "char \<Rightarrow> bool" where
  "is_word_char c =
     (is_alpha c \<or> is_digit c \<or> c = CHR ''_''
      \<or> c \<in> set ([CHR 0xAA, CHR 0xB2, CHR 0xB3, CHR 0xB5, CHR 0xB9, CHR 0xBA,
                     CHR 0xBC, CHR 0xBD, CHR 0xBE, CHR 0xDF, CHR 0xFF] @ latin_upper @ latin_lower))"

text \<open>\<open>str.lower\<close>, character by character: it changes the capital letters only, and each
  into one character.\<close>

definition lower_char :: "char \<Rightarrow> char" where
  "lower_char c =
     (case map_of (zip (''ABCDEFGHIJKLMNOPQRSTUVWXYZ'' @ latin_upper)
                       (''abcdefghijklmnopqrstuvwxyz'' @ latin_lower)) c of
        Some d \<Rightarrow> d | None \<Rightarrow> c)"

text \<open>The capital of an ASCII letter (\<open>str.title\<close> is applied to ASCII letters only, see
  \<open>title_from\<close>).\<close>

definition upper_char :: "char \<Rightarrow> char" where
  "upper_char c =
     (case map_of (zip ''abcdefghijklmnopqrstuvwxyz'' ''ABCDEFGHIJKLMNOPQRSTUVWXYZ'') c of
        Some d \<Rightarrow> d | None \<Rightarrow> c)"

definition lower :: "string \<Rightarrow> string" where
  "lower s = map lower_char s"

fun startswith :: "string \<Rightarrow> string \<Rightarrow> bool" where
  "startswith s [] = True"
| "startswith [] (p # ps) = False"
| "startswith (c # cs) (p # ps) = (c = p \<and> startswith cs ps)"

text \<open>A lowercase literal of a pattern under \<open>re.I\<close>, anchored: the text starts with the
  literal \<open>p\<close>, whatever the case of its letters.\<close>

fun startswith_ci :: "string \<Rightarrow> string \<Rightarrow> bool" where
  "startswith_ci s [] = True"
| "startswith_ci [] (p # ps) = False"
| "startswith_ci (c # cs) (p # ps) = (lower_char c = p \<and> startswith_ci cs ps)"

text \<open>\<open>contains s w\<close> is Python's \<open>w in s\<close>.\<close>

fun contains :: "string \<Rightarrow> string \<Rightarrow> bool" where
  "contains [] w = (w = [])"
| "contains (c # cs) w = (startswith (c # cs) w \<or> contains cs w)"

definition strip :: "string \<Rightarrow> string" where
  "strip s = rev (dropWhile is_space (rev (dropWhile is_space s)))"

text \<open>\<open>re.search\<close>: the match at the leftmost position where the pattern matches; \<open>m\<close> is
  the pattern anchored at the start of its argument.\<close>

fun re_search :: "(string \<Rightarrow> 'a option) \<Rightarrow> string \<Rightarrow> 'a option" where
  "re_search m [] = m []"
| "re_search m (c # cs) = (case m (c # cs) of Some r \<Rightarrow> Some r | None \<Rightarrow> re_search m cs)"

text \<open>A case-insensitive alternation of lowercase literals, such as \<open>(event|call|appointment)\<close>
  under \<open>re.I\<close>: the rest of the text after the first alternative that matches. In every
  alternation of agent.py the alternatives start with different letters, so at most one of
  them matches at a position and no later alternative has to be retried.\<close>

fun alt_ci :: "string list \<Rightarrow> string \<Rightarrow> string option" where
  "alt_ci [] s = None"
| "alt_ci (w # ws) s =
     (if startswith_ci s w then Some (drop (length w) s) else alt_ci ws s)"

text \<open>The same, case-sensitive.\<close>

fun alt_cs :: "string list \<Rightarrow> string \<Rightarrow> string option" where
  "alt_cs [] s = None"
| "alt_cs (w # ws) s =
     (if startswith s w then Some (drop (length w) s) else alt_cs ws s)"

section \<open>Intent classifier\<close>

text \<open>\<open>any(w in msg for w in ws)\<close>.\<close>

definition any_in :: "string list \<Rightarrow> string \<Rightarrow> bool" where
  "any_in ws msg = list_ex (contains msg) ws"

definition extract_intent :: "string \<Rightarrow> string" where
  "extract_intent user_msg =
     (let msg = lower user_msg in
      if any_in [''cancel'', ''delete'', ''remove''] msg then ''cancel''
      else if any_in [''edit'', ''reschedule'', ''move'', ''change''] msg then ''edit''
      else if any_in [''book'', ''schedule'', ''set up'', ''add''] msg then ''book''
      else if any_in [''list'', ''show'', ''what'', ''upcoming'', ''events'', ''history'', ''held''] msg
        then ''list''
      else if any_in [''free'', ''available'', ''slots''] msg then ''check''
      else if any_in [''help'', ''how''] msg then ''help''
      else ''unknown'')"

section \<open>Reference extraction\<close>

text \<open>\<open>(\\d{1,2}(:\\d{2})?\\s*(am|pm)?)\<close> with \<open>re.I\<close>, anchored; the result is group 0. Every
  part after the digits may match the empty string, so the greedy choice never has to be
  undone.\<close>

definition ref_time_at :: "string \<Rightarrow> string option" where
  "ref_time_at s =
     (let d = take 2 (takeWhile is_digit s) in
      if d = [] then None
      else
        let r1 = drop (length d) s;
            colon = (case r1 of
                       c # a # b # _ \<Rightarrow>
                         if c = CHR '':'' \<and> is_digit a \<and> is_digit b then take 3 r1 else []
                     | _ \<Rightarrow> []);
            r2 = drop (length colon) r1;
            sp = takeWhile is_space r2;
            r3 = drop (length sp) r2;
            ap = (if startswith_ci r3 ''am'' \<or> startswith_ci r3 ''pm''
                  then take 2 r3 else [])
        in Some (d @ colon @ sp @ ap))"

text \<open>\<open>(event|call|appointment) (about|on|for) ([^,\\\\.]+)\<close> with \<open>re.I\<close>, anchored; the
  result is group 3. The class excludes the comma, the backslash and the full stop.\<close>

definition is_ref_summary_char :: "char \<Rightarrow> bool" where
  "is_ref_summary_char c = (c \<noteq> CHR '','' \<and> c \<noteq> backslash \<and> c \<noteq> CHR ''.'')"

definition ref_summary_at :: "string \<Rightarrow> string option" where
  "ref_summary_at s =
     (case alt_ci [''event'', ''call'', ''appointment''] s of
        None \<Rightarrow> None
      | Some r1 \<Rightarrow>
          if \<not> startswith r1 '' '' then None
          else (case alt_ci [''about'', ''on'', ''for''] (drop 1 r1) of
                  None \<Rightarrow> None
                | Some r2 \<Rightarrow>
                    if \<not> startswith r2 '' '' then None
                    else let g = takeWhile is_ref_summary_char (drop 1 r2)
                         in if g = [] then None else Some g))"

definition extract_reference :: "string \<Rightarrow> string option" where
  "extract_reference user_msg =
     (let time_match = re_search ref_time_at user_msg;
          summary_match = re_search ref_summary_at user_msg
      in case time_match of
           Some g0 \<Rightarrow> Some g0
         | None \<Rightarrow>
             (case summary_match of
                Some g3 \<Rightarrow> Some (strip g3)
              | None \<Rightarrow>
                  if contains (lower user_msg) ''last'' then Some ''last''
                  else if contains (lower user_msg) ''next'' then Some ''next''
                  else if any_in [''it'', ''that'', ''this''] (lower user_msg) then Some ''context''
                  else None))"

section \<open>Numbers in text\<close>

definition digit_char :: "int \<Rightarrow> char" where
  "digit_char n = ''0123456789'' ! nat (n mod 10)"

definition digit_val :: "char \<Rightarrow> int" where
  "digit_val c =
     (case map_of (zip ''0123456789'' [0, 1, 2, 3, 4, 5, 6, 7, 8, 9]) c of
        Some v \<Rightarrow> v | None \<Rightarrow> 0)"

text \<open>The value of a string of decimal digits.\<close>

definition int_of_digits :: "string \<Rightarrow> int" where
  "int_of_digits s = foldl (\<lambda>n c. n * 10 + digit_val c) 0 s"

text \<open>The exceptions that the code of the agent can raise.\<close>

datatype error =
  ValueError | TypeError | OverflowError | UnknownTimeZoneError | AttributeError | KeyError

text \<open>\<open>len(s)\<close>, as an integer.\<close>

fun len :: "string \<Rightarrow> int" where
  "len [] = 0"
| "len (c # cs) = 1 + len cs"

text \<open>\<open>int(s)\<close> on a string of decimal digits. An interpreter with a limit on the length of
  such a string (\<open>sys.get_int_max_str_digits()\<close>, 4300 unless set otherwise; 0 and the
  interpreters before the limit existed have none) raises ValueError for more digits than
  the limit; strings of up to 640 digits are never refused.\<close>

definition int_of_text :: "int \<Rightarrow> string \<Rightarrow> error + int" where
  "int_of_text max_str_digits s =
     (if max_str_digits > 0 \<and> len s > 640 \<and> len s > max_str_digits then Inl ValueError
      else Inr (int_of_digits s))"

text \<open>Python integers are unbounded: numbers are \<open>int\<close>. \<open>str_digits n\<close> is \<open>str(n)\<close> for
  \<open>n\<close> not negative, \<open>str_int\<close> is \<open>str\<close> on every integer.\<close>

function str_digits :: "int \<Rightarrow> string" where
  "str_digits n =
     (if n < 10 then [digit_char n] else str_digits (n div 10) @ [digit_char (n mod 10)])"
  by pat_completeness auto
termination
  by (relation "measure nat") auto

declare str_digits.simps [simp del]

definition str_int :: "int \<Rightarrow> string" where
  "str_int i = (if i < 0 then ''-'' @ str_digits (- i) else str_digits i)"

text \<open>Zero padding, as \<open>%02d\<close> and \<open>%04d\<close> do.\<close>

definition zfill :: "nat \<Rightarrow> string \<Rightarrow> string" where
  "zfill k s = replicate (k - length s) (CHR ''0'') @ s"

definition pad2 :: "int \<Rightarrow> string" where
  "pad2 n = zfill 2 (str_digits n)"

section \<open>Dates and times\<close>

text \<open>
  A timezone-aware \<open>datetime.datetime\<close>: the local calendar fields and the offset from UTC in
  minutes. \<open>search_dates\<close> is called with \<open>RETURN_AS_TIMEZONE_AWARE\<close>, so every start time the
  agent stores carries an offset; naive datetimes occur only in \<open>datetime.utcnow()\<close>, whose
  ISO text is \<open>isoformat_naive\<close>.
\<close>

record datetime =
  year :: int
  month :: int
  day :: int
  hour :: int
  minute :: int
  second :: int
  microsecond :: int
  utcoffset :: int


text \<open>Days between 1970-01-01 and a date of the proleptic Gregorian calendar, and back.\<close>

definition days_from_civil :: "int \<Rightarrow> int \<Rightarrow> int \<Rightarrow> int" where
  "days_from_civil y m d =
     (let y' = (if m \<le> 2 then y - 1 else y);
          era = y' div 400;
          yoe = y' - era * 400;
          doy = (153 * (if m > 2 then m - 3 else m + 9) + 2) div 5 + d - 1;
          doe = yoe * 365 + yoe div 4 - yoe div 100 + doy
      in era * 146097 + doe - 719468)"

definition civil_from_days :: "int \<Rightarrow> int \<times> int \<times> int" where
  "civil_from_days z0 =
     (let z = z0 + 719468;
          era = z div 146097;
          doe = z - era * 146097;
          yoe = (doe - doe div 1460 + doe div 36524 - doe div 146096) div 365;
          doy = doe - (365 * yoe + yoe div 4 - yoe div 100);
          mp = (5 * doy + 2) div 153;
          d = doy - (153 * mp + 2) div 5 + 1;
          m = (if mp < 10 then mp + 3 else mp - 9);
          y = yoe + era * 400
      in (if m \<le> 2 then y + 1 else y, m, d))"

text \<open>Minutes of the local calendar fields since 1970-01-01T00:00.\<close>

definition local_minutes :: "datetime \<Rightarrow> int" where
  "local_minutes dt =
     (days_from_civil (year dt) (month dt) (day dt) * 24 + hour dt) * 60 + minute dt"

text \<open>The instant a datetime denotes, in microseconds since the epoch; aware datetimes are
  compared by it.\<close>

definition instant :: "datetime \<Rightarrow> int" where
  "instant dt =
     ((local_minutes dt - utcoffset dt) * 60 + second dt) * 1000000 + microsecond dt"

text \<open>\<open>int(dt.timestamp())\<close>: the seconds since the epoch, rounded towards zero. (The float
  that \<open>timestamp()\<close> returns keeps the microseconds of a second apart for the clocks of the
  years 1700 to 2200; the model does not follow its rounding beyond them.)\<close>

definition timestamp_seconds :: "datetime \<Rightarrow> int" where
  "timestamp_seconds dt =
     (if instant dt < 0 then - ((- instant dt) div 1000000) else instant dt div 1000000)"

definition isoformat_naive :: "datetime \<Rightarrow> string" where
  "isoformat_naive dt =
     zfill 4 (str_digits (year dt)) @ ''-'' @ pad2 (month dt) @ ''-'' @ pad2 (day dt) @ ''T''
       @ pad2 (hour dt) @ '':'' @ pad2 (minute dt) @ '':'' @ pad2 (second dt)
       @ (if microsecond dt = 0 then [] else ''.'' @ zfill 6 (str_digits (microsecond dt)))"

definition format_offset :: "int \<Rightarrow> string" where
  "format_offset off =
     (if off < 0 then ''-'' else ''+'') @ pad2 (\<bar>off\<bar> div 60) @ '':'' @ pad2 (\<bar>off\<bar> mod 60)"

definition isoformat :: "datetime \<Rightarrow> string" where
  "isoformat dt = isoformat_naive dt @ format_offset (utcoffset dt)"

text \<open>\<open>dt.replace(hour=h, minute=m)\<close>: ValueError unless \<open>h\<close> is in 0..23 and \<open>m\<close> in 0..59.\<close>

definition replace_hour_minute :: "datetime \<Rightarrow> int \<Rightarrow> int \<Rightarrow> error + datetime" where
  "replace_hour_minute dt h m =
     (if h > 23 \<or> m > 59 then Inl ValueError else Inr (dt\<lparr>hour := h, minute := m\<rparr>))"

text \<open>\<open>dt + timedelta(minutes=n)\<close>: the calendar fields move, the offset stays; OverflowError
  when the year leaves 1..9999 (the range of \<open>timedelta\<close> itself is wider than that of the
  dates, so a duration too large for \<open>timedelta\<close> overflows here as well).\<close>

definition add_minutes :: "datetime \<Rightarrow> int \<Rightarrow> error + datetime" where
  "add_minutes dt n =
     (let total = local_minutes dt + n;
          (y, m, d) = civil_from_days (total div 1440);
          r = total mod 1440
      in if y < 1 \<or> y > 9999 then Inl OverflowError
         else Inr (dt\<lparr>year := y, month := m, day := d, hour := r div 60, minute := r mod 60\<rparr>))"

definition weekday_name :: "datetime \<Rightarrow> string" where
  "weekday_name dt =
     [''Thursday'', ''Friday'', ''Saturday'', ''Sunday'', ''Monday'', ''Tuesday'', ''Wednesday'']
       ! nat (days_from_civil (year dt) (month dt) (day dt) mod 7)"

definition month_names :: "string list" where
  "month_names = [''January'', ''February'', ''March'', ''April'', ''May'', ''June'', ''July'',
                  ''August'', ''September'', ''October'', ''November'', ''December'']"

definition month_name :: "datetime \<Rightarrow> string" where
  "month_name dt = month_names ! nat (month dt - 1)"

text \<open>\<open>%I\<close>: the hour on the 12-hour clock, two digits.\<close>

definition hour12 :: "int \<Rightarrow> int" where
  "hour12 h = (if h mod 12 = 0 then 12 else h mod 12)"

text \<open>\<open>dt.strftime("%A, %B %d at %I:%M %p")\<close>.\<close>

definition strftime_natural :: "datetime \<Rightarrow> string" where
  "strftime_natural dt =
     weekday_name dt @ '', '' @ month_name dt @ '' '' @ pad2 (day dt) @ '' at ''
       @ pad2 (hour12 (hour dt)) @ '':'' @ pad2 (minute dt) @ '' ''
       @ (if hour dt < 12 then ''AM'' else ''PM'')"

section \<open>The libraries, the interpreter and the clock around the agent\<close>

text \<open>
  \<open>dateparser\<close>, \<open>pytz\<close> and the system clock are not code of the repository; the agent's
  functions take them as a parameter.
  \<^item> \<open>search_dates e text\<close>: the datetime of the first date \<open>search_dates\<close> finds in the text
    (\<open>found[0][1]\<close>), \<open>None\<close> when it finds no date.
  \<^item> \<open>dateparser_parse e text\<close>: \<open>dateparser.parse(text)\<close>, \<open>None\<close> when the text is no date.
  \<^item> \<open>astimezone e name dt\<close>: \<open>dt.astimezone(pytz.timezone(name))\<close>, which raises for a name
    \<open>pytz\<close> does not know.
  \<^item> \<open>max_str_digits e\<close>: the interpreter's limit on the digits of \<open>int(s)\<close>, see
    \<open>int_of_text\<close>.
  \<^item> \<open>clock e k\<close>: what the \<open>k\<close>-th reading of the system clock during the request returns
    (\<open>datetime.now\<close>, \<open>datetime.utcnow\<close>), as a UTC datetime.
\<close>

record env =
  search_dates :: "string \<Rightarrow> datetime option"
  dateparser_parse :: "string \<Rightarrow> datetime option"
  astimezone :: "string \<Rightarrow> datetime \<Rightarrow> error + datetime"
  max_str_digits :: int
  clock :: "nat \<Rightarrow> datetime"

section \<open>Slot extraction\<close>

record context_event =
  c_summary :: string
  c_datetime :: "string option"
  c_duration :: int
  c_timezone :: string
  c_attendees :: "string list"

record slots =
  s_datetime :: "string option"
  s_duration :: int
  s_summary :: string
  s_timezone :: string
  s_attendees :: "string list"
  s_ambiguity :: bool
  s_reference :: "string option"

text \<open>\<open>with ([A-Za-z ,and]+)\<close> with \<open>re.I\<close>, anchored; the result is group 1. The class holds
  the ASCII letters, the blank and the comma, with \<open>re.I\<close> as without.\<close>

definition is_attendee_char :: "char \<Rightarrow> bool" where
  "is_attendee_char c = (is_alpha c \<or> c = CHR '' '' \<or> c = CHR '','')"

definition with_at :: "string \<Rightarrow> string option" where
  "with_at s =
     (if startswith_ci s ''with '' then
        let g = takeWhile is_attendee_char (drop 5 s) in if g = [] then None else Some g
      else None)"

text \<open>\<open>re.split(r",| and ", s)\<close>; \<open>cur\<close> is the piece being read.\<close>

function split_names :: "string \<Rightarrow> string \<Rightarrow> string list" where
  "split_names cur [] = [cur]"
| "split_names cur (c # cs) =
     (if c = CHR '','' then cur # split_names [] cs
      else if startswith (c # cs) '' and '' then cur # split_names [] (drop 4 cs)
      else split_names (cur @ [c]) cs)"
  by pat_completeness auto
termination
  by (relation "measure (\<lambda>(cur, s). length s)") auto

text \<open>\<open>str.title\<close> on the pieces of group 1 of \<open>with_at\<close>, which are made of ASCII letters and
  blanks: a letter after a letter is lowered, any other letter is raised.\<close>

fun title_from :: "bool \<Rightarrow> string \<Rightarrow> string" where
  "title_from prev [] = []"
| "title_from prev (c # cs) =
     (if is_alpha c then (if prev then lower_char c else upper_char c) # title_from True cs
      else c # title_from False cs)"

definition title :: "string \<Rightarrow> string" where
  "title s = title_from False s"

definition extract_attendees :: "string \<Rightarrow> string list" where
  "extract_attendees user_msg =
     (case re_search with_at user_msg of
        Some g1 \<Rightarrow> map (\<lambda>n. title (strip n)) (filter (\<lambda>n. strip n \<noteq> []) (split_names [] g1))
      | None \<Rightarrow> [])"

text \<open>\<open>\\s*(am|pm)\<close> with \<open>re.I\<close>, anchored; the result is the text of the group.\<close>

definition ampm_at :: "string \<Rightarrow> string option" where
  "ampm_at s =
     (let r = dropWhile is_space s in
      if startswith_ci r ''am'' \<or> startswith_ci r ''pm'' then Some (take 2 r) else None)"

text \<open>\<open>(?::(\\d{2}))?\\s*(am|pm)\<close>, anchored: first with the minutes, then without them; the
  result is groups 2 and 3.\<close>

definition time_tail :: "string \<Rightarrow> (string option \<times> string) option" where
  "time_tail r =
     (let with_minutes =
            (case r of
               c # a # b # r' \<Rightarrow>
                 if c = CHR '':'' \<and> is_digit a \<and> is_digit b
                 then map_option (\<lambda>ap. (Some [a, b], ap)) (ampm_at r') else None
             | _ \<Rightarrow> None)
      in case with_minutes of
           Some m \<Rightarrow> Some m
         | None \<Rightarrow> map_option (\<lambda>ap. (None, ap)) (ampm_at r))"

text \<open>\<open>(\\d{1,2})(?::(\\d{2}))?\\s*(am|pm)\<close> with \<open>re.I\<close>, anchored: two digits first when there
  are two, then one; the result is groups 1, 2 and 3.\<close>

definition slot_time_at :: "string \<Rightarrow> (string \<times> string option \<times> string) option" where
  "slot_time_at s =
     (let n = length (take 2 (takeWhile is_digit s));
          two = (if n = 2 then map_option (\<lambda>t. (take 2 s, t)) (time_tail (drop 2 s)) else None)
      in if n = 0 then None
         else case two of
                Some m \<Rightarrow> Some m
              | None \<Rightarrow> map_option (\<lambda>t. (take 1 s, t)) (time_tail (drop 1 s)))"

text \<open>\<open>(\\d+)\\s*min\<close> and \<open>(\\d+)\\s*hour\<close> with \<open>re.I\<close>, anchored; the result is group 1. The
  digits and the blanks are taken greedily: a shorter run of either is followed by a digit
  or a blank, never by the unit.\<close>

definition number_unit_at :: "string \<Rightarrow> string \<Rightarrow> string option" where
  "number_unit_at unit s =
     (let d = takeWhile is_digit s;
          r = dropWhile is_space (drop (length d) s)
      in if d \<noteq> [] \<and> startswith_ci r unit then Some d else None)"

text \<open>\<open>for ([^,\\\\.;]+)\<close> with \<open>re.I\<close>, anchored; the result is group 1.\<close>

definition is_summary_char :: "char \<Rightarrow> bool" where
  "is_summary_char c = (c \<noteq> CHR '','' \<and> c \<noteq> backslash \<and> c \<noteq> CHR ''.'' \<and> c \<noteq> CHR '';'')"

definition for_at :: "string \<Rightarrow> string option" where
  "for_at s =
     (if startswith_ci s ''for '' then
        let g = takeWhile is_summary_char (drop 4 s) in if g = [] then None else Some g
      else None)"

text \<open>\<open>([A-Za-z]+/[A-Za-z_]+)\<close>, anchored; the result is group 1.\<close>

definition tz_at :: "string \<Rightarrow> string option" where
  "tz_at s =
     (let a = takeWhile is_alpha s;
          r = drop (length a) s;
          b = takeWhile (\<lambda>c. is_alpha c \<or> c = CHR ''_'') (drop 1 r)
      in if a \<noteq> [] \<and> startswith r ''/'' \<and> b \<noteq> [] then Some (a @ ''/'' @ b) else None)"

text \<open>The datetime of \<open>extract_slots\<close>: the first date found; when its time of day is
  midnight, the hour and the minute come from an explicit \<open>H(:MM)? am|pm\<close> in the text
  (\<open>int\<close> of one or two digits, which no limit on the digits refuses).\<close>

definition extract_datetime :: "env \<Rightarrow> string \<Rightarrow> error + datetime option" where
  "extract_datetime e user_msg =
     (case search_dates e user_msg of
        None \<Rightarrow> Inr None
      | Some dt \<Rightarrow>
          if hour dt = 0 \<and> minute dt = 0 then
            (case re_search slot_time_at user_msg of
               None \<Rightarrow> Inr (Some dt)
             | Some (g1, g2, g3) \<Rightarrow>
                 let hour0 = int_of_digits g1;
                     minute' = (case g2 of None \<Rightarrow> 0 | Some m \<Rightarrow> int_of_digits m);
                     ampm = lower g3;
                     hour' = (if ampm = ''pm'' \<and> hour0 \<noteq> 12 then hour0 + 12
                              else if ampm = ''am'' \<and> hour0 = 12 then 0
                              else hour0)
                 in map_sum id Some (replace_hour_minute dt hour' minute'))
          else Inr (Some dt))"

definition vague_words :: "string list" where
  "vague_words = [''next week'', ''someday'', ''later'', ''soon'', ''whenever'', ''some time'', ''not sure'']"

text \<open>The duration of \<open>extract_slots\<close>: the chain of \<open>if\<close> and \<open>elif\<close> over \<open>1 ?hour\<close>,
  \<open>(\\d+)\\s*min\<close> and \<open>(\\d+)\\s*hour\<close> (all with \<open>re.I\<close>), then the context event, then 30.\<close>

definition extract_duration :: "env \<Rightarrow> string \<Rightarrow> context_event option \<Rightarrow> error + int" where
  "extract_duration e user_msg context_event =
     (if contains (lower user_msg) ''1hour'' \<or> contains (lower user_msg) ''1 hour'' then Inr 60
      else case re_search (number_unit_at ''min'') user_msg of
             Some g1 \<Rightarrow> int_of_text (max_str_digits e) g1
           | None \<Rightarrow>
               (case re_search (number_unit_at ''hour'') user_msg of
                  Some g1 \<Rightarrow> map_sum id (\<lambda>n. n * 60) (int_of_text (max_str_digits e) g1)
                | None \<Rightarrow>
                    (case context_event of
                       Some c \<Rightarrow> Inr (if c_duration c \<noteq> 0 then c_duration c else 30)
                     | None \<Rightarrow> Inr 30)))"

definition extract_slots :: "env \<Rightarrow> string \<Rightarrow> context_event option \<Rightarrow> error + slots" where
  "extract_slots e user_msg context_event =
     (case extract_datetime e user_msg of
        Inl err \<Rightarrow> Inl err
      | Inr dt \<Rightarrow>
          (case extract_duration e user_msg context_event of
             Inl err \<Rightarrow> Inl err
           | Inr duration \<Rightarrow>
               let summary =
                     (case re_search for_at user_msg of
                        Some g1 \<Rightarrow> strip g1
                      | None \<Rightarrow>
                          (case context_event of
                             Some c \<Rightarrow> if c_summary c \<noteq> [] then c_summary c else ''Event''
                           | None \<Rightarrow> ''Event''));
                   timezone =
                     (case re_search tz_at user_msg of
                        Some g1 \<Rightarrow> g1
                      | None \<Rightarrow>
                          (case context_event of
                             Some c \<Rightarrow> if c_timezone c \<noteq> [] then c_timezone c else ''UTC''
                           | None \<Rightarrow> ''UTC''));
                   attendees =
                     (if extract_attendees user_msg \<noteq> [] then extract_attendees user_msg
                      else case context_event of Some c \<Rightarrow> c_attendees c | None \<Rightarrow> []);
                   ambiguity = (dt = None \<or> any_in vague_words (lower user_msg));
                   reference = extract_reference user_msg
               in Inr \<lparr>s_datetime = map_option isoformat dt, s_duration = duration,
                        s_summary = summary, s_timezone = timezone, s_attendees = attendees,
                   s_ambiguity = ambiguity, s_reference = reference\<rparr>))"

section \<open>The booking ledger (database.py)\<close>

text \<open>
  A row of the table \<open>bookings\<close>. The queries of database.py select the first seven columns;
  the agent reads them by position: \<open>b[0]\<close> is \<open>b_id\<close>, \<open>b[1]\<close> is \<open>b_summary\<close>, \<open>b[3]\<close> is
  \<open>b_start_time\<close>, \<open>b[4]\<close> is \<open>b_end_time\<close>, \<open>b[5]\<close> is \<open>b_timezone\<close>, \<open>b[6]\<close> is \<open>b_status\<close>.
\<close>

record booking =
  b_id :: nat
  b_summary :: string
  b_event_id :: string
  b_start_time :: string
  b_end_time :: string
  b_timezone :: string
  b_status :: string
  b_created_at :: string
  b_updated_at :: string

text \<open>The writing calls of database.py, with their arguments.\<close>

datatype write_call =
  SaveBooking string string string string string
| CancelBooking nat
| UpdateBooking nat string string string string

text \<open>
  The database: the rows in the order of their insertion, the counter of the
  \<open>AUTOINCREMENT\<close> key, and the writing calls made so far (kept so that "no call was made"
  can be stated; no function reads it).
\<close>

record ledger =
  rows :: "booking list"
  seq :: nat
  journal :: "write_call list"

definition empty_ledger :: ledger where
  "empty_ledger = \<lparr>rows = [], seq = 0, journal = []\<rparr>"

definition save_booking ::
  "string \<Rightarrow> string \<Rightarrow> string \<Rightarrow> string \<Rightarrow> string \<Rightarrow> string \<Rightarrow> ledger \<Rightarrow> ledger" where
  "save_booking summary event_id start_time end_time timezone now led =
     led\<lparr>rows := rows led @
              [\<lparr>b_id = Suc (seq led), b_summary = summary, b_event_id = event_id,
                b_start_time = start_time, b_end_time = end_time, b_timezone = timezone,
                b_status = ''active'', b_created_at = now, b_updated_at = now\<rparr>],
         seq := Suc (seq led),
         journal := journal led @ [SaveBooking summary event_id start_time end_time timezone]\<rparr>"

text \<open>\<open>ORDER BY start_time ASC\<close> compares the texts byte by byte; rows with equal start times
  are kept in the order of the table.\<close>

definition list_bookings :: "string \<Rightarrow> ledger \<Rightarrow> booking list" where
  "list_bookings status led = sort_key b_start_time (filter (\<lambda>b. b_status b = status) (rows led))"

text \<open>\<open>WHERE status = 'active' ORDER BY id DESC LIMIT 1\<close>.\<close>

definition get_last_booking :: "ledger \<Rightarrow> booking option" where
  "get_last_booking led =
     (case sort_key b_id (filter (\<lambda>b. b_status b = ''active'') (rows led)) of
        [] \<Rightarrow> None
      | b # bs \<Rightarrow> Some (last (b # bs)))"

definition cancel_booking :: "nat \<Rightarrow> string \<Rightarrow> ledger \<Rightarrow> ledger" where
  "cancel_booking booking_id now led =
     led\<lparr>rows := map (\<lambda>b. if b_id b = booking_id \<and> b_status b = ''active''
                             then b\<lparr>b_status := ''cancelled'', b_updated_at := now\<rparr> else b)
                      (rows led),
         journal := journal led @ [CancelBooking booking_id]\<rparr>"

definition update_booking ::
  "nat \<Rightarrow> string \<Rightarrow> string \<Rightarrow> string \<Rightarrow> string \<Rightarrow> string \<Rightarrow> ledger \<Rightarrow> ledger" where
  "update_booking booking_id summary start_time end_time timezone now led =
     led\<lparr>rows := map (\<lambda>b. if b_id b = booking_id \<and> b_status b = ''active''
                             then b\<lparr>b_summary := summary, b_start_time := start_time,
                                    b_end_time := end_time, b_timezone := timezone,
                                    b_updated_at := now\<rparr>
                             else b)
                      (rows led),
         journal := journal led @ [UpdateBooking booking_id summary start_time end_time timezone]\<rparr>"

section \<open>Reference resolution and formatting\<close>

definition find_booking_by_reference ::
  "string option \<Rightarrow> context_event option \<Rightarrow> ledger \<Rightarrow> booking option" where
  "find_booking_by_reference reference context_event led =
     (let bookings = list_bookings ''active'' led in
      if bookings = [] then None
      else if reference = Some ''last'' then Some (last bookings)
      else if reference = Some ''next'' then Some (hd bookings)
      else
        let by_context =
              (case context_event of
                 Some c \<Rightarrow>
                   if reference = Some ''context'' then
                     find (\<lambda>b. (c_summary c \<noteq> [] \<and> contains (lower (b_summary b)) (lower (c_summary c)))
                               \<or> (case c_datetime c of
                                     Some d \<Rightarrow> d \<noteq> [] \<and> contains (b_start_time b) d
                                   | None \<Rightarrow> False))
                          bookings
                   else None
               | None \<Rightarrow> None)
        in case by_context of
             Some b \<Rightarrow> Some b
           | None \<Rightarrow>
               (case reference of
                  Some r \<Rightarrow>
                    find (\<lambda>b. r \<noteq> [] \<and> (contains (b_start_time b) r
                                          \<or> contains (lower (b_summary b)) (lower r)))
                         bookings
                | None \<Rightarrow> None))"

definition format_event_natural :: "env \<Rightarrow> booking \<Rightarrow> error + string" where
  "format_event_natural e b =
     (case dateparser_parse e (b_start_time b) of
        None \<Rightarrow> Inr (''Your event '' @ [apostrophe] @ b_summary b @ [apostrophe] @ '' (time unknown).'')
      | Some dt \<Rightarrow>
          (case (if b_timezone b \<noteq> ''UTC'' then astimezone e (b_timezone b) dt else Inr dt) of
             Inl err \<Rightarrow> Inl err
           | Inr dt_local \<Rightarrow>
               Inr (''Your event '' @ [apostrophe] @ b_summary b @ [apostrophe]
                    @ '' is scheduled for '' @ strftime_natural dt_local
                    @ '' ('' @ b_timezone b @ ''). Status: '' @ b_status b @ ''.'')))"

section \<open>Context from the chat history\<close>

text \<open>\<open>'(.+?)' (?:booked|scheduled|updated|cancelled).*?for ([\\w, :]+)\<close>, in three parts.
  \<open>ctx_for\<close> is \<open>.*?for ([\\w, :]+)\<close> anchored: the lazy \<open>.*?\<close> grows one character at a time,
  never over a line feed; the result is group 2.\<close>

definition is_ctx_date_char :: "char \<Rightarrow> bool" where
  "is_ctx_date_char c = (is_word_char c \<or> c = CHR '','' \<or> c = CHR '' '' \<or> c = CHR '':'')"

fun ctx_for :: "string \<Rightarrow> string option" where
  "ctx_for [] = None"
| "ctx_for (c # cs) =
     (let g = takeWhile is_ctx_date_char (drop 4 (c # cs)) in
      if startswith (c # cs) ''for '' \<and> g \<noteq> [] then Some g
      else if c = newline then None
      else ctx_for cs)"

text \<open>\<open>(.+?)' (?:...).*?for ([\\w, :]+)\<close> after the opening quote; \<open>cur\<close> is what the lazy
  \<open>.+?\<close> has taken so far. The result is groups 1 and 2.\<close>

fun ctx_quoted :: "string \<Rightarrow> string \<Rightarrow> (string \<times> string) option" where
  "ctx_quoted cur [] = None"
| "ctx_quoted cur (c # cs) =
     (let rest =
            (if cur \<noteq> [] \<and> c = apostrophe \<and> startswith cs '' '' then
               (case alt_cs [''booked'', ''scheduled'', ''updated'', ''cancelled''] (drop 1 cs) of
                  Some r \<Rightarrow> ctx_for r
                | None \<Rightarrow> None)
             else None)
      in case rest of
           Some g2 \<Rightarrow> Some (cur, g2)
         | None \<Rightarrow> if c = newline then None else ctx_quoted (cur @ [c]) cs)"

definition ctx_at :: "string \<Rightarrow> (string \<times> string) option" where
  "ctx_at s = (case s of [] \<Rightarrow> None | c # cs \<Rightarrow> if c = apostrophe then ctx_quoted [] cs else None)"

text \<open>The loop over \<open>reversed(messages)\<close>; a message is a pair of its role and its content.\<close>

fun context_scan :: "env \<Rightarrow> (string \<times> string) list \<Rightarrow> context_event option" where
  "context_scan e [] = None"
| "context_scan e ((role, content) # older) =
     (if role = ''assistant'' \<and> contains (lower content) ''event'' then
        (case re_search ctx_at content of
           Some (summary, dt_str) \<Rightarrow>
             Some \<lparr>c_summary = summary,
                   c_datetime = map_option isoformat (dateparser_parse e dt_str),
                   c_duration = 30, c_timezone = ''UTC'', c_attendees = []\<rparr>
         | None \<Rightarrow> context_scan e older)
      else context_scan e older)"

definition get_context_event_from_history :: "env \<Rightarrow> (string \<times> string) list \<Rightarrow> context_event option" where
  "get_context_event_from_history e messages = context_scan e (rev messages)"

section \<open>The booking decision engine\<close>

record result =
  r_intent :: string
  r_slots :: slots
  r_response :: string

text \<open>\<open>sep.join(xs)\<close>.\<close>

fun join :: "string \<Rightarrow> string list \<Rightarrow> string" where
  "join sep [] = []"
| "join sep [x] = x"
| "join sep (x # y # ys) = x @ sep @ join sep (y # ys)"

text \<open>A list comprehension whose element expression may raise: the first error wins.\<close>

fun collect :: "(error + 'a) list \<Rightarrow> error + 'a list" where
  "collect [] = Inr []"
| "collect (Inl err # xs) = Inl err"
| "collect (Inr x # xs) = (case collect xs of Inl err \<Rightarrow> Inl err | Inr r \<Rightarrow> Inr (x # r))"

text \<open>\<open>(dateparser.parse(slots["datetime"]) + timedelta(minutes=slots["duration"])).isoformat()\<close>:
  TypeError when the text does not parse.\<close>

definition end_time_of :: "env \<Rightarrow> slots \<Rightarrow> error + string" where
  "end_time_of e sl =
     (case s_datetime sl of
        None \<Rightarrow> Inl TypeError
      | Some start_time \<Rightarrow>
          (case dateparser_parse e start_time of
             None \<Rightarrow> Inl TypeError
           | Some dt \<Rightarrow> map_sum id isoformat (add_minutes dt (s_duration sl))))"

definition handle_book :: "env \<Rightarrow> slots \<Rightarrow> ledger \<Rightarrow> (error + string) \<times> ledger" where
  "handle_book e sl led =
     (if s_ambiguity sl then (Inr ''Please specify a clear date and time for your event.'', led)
      else case end_time_of e sl of
             Inl err \<Rightarrow> (Inl err, led)
           | Inr end_time \<Rightarrow>
               let start_time = the (s_datetime sl) in
               if list_ex (\<lambda>b. b_start_time b = start_time \<and> b_status b = ''active'')
                    (list_bookings ''active'' led)
               then (Inr ''You already have an event at that time.'', led)
               else
                 let event_id = ''evt_'' @ str_int (timestamp_seconds (clock e 0));
                     led' = save_booking (s_summary sl) event_id start_time end_time (s_timezone sl)
                              (isoformat_naive (clock e 1)) led;
                     response = ''Event '' @ [apostrophe] @ s_summary sl @ [apostrophe]
                                  @ '' booked for '' @ start_time @ '' ('' @ s_timezone sl @ '').''
                 in (Inr (if s_attendees sl \<noteq> []
                          then response @ '' Attendees: '' @ join '', '' (s_attendees sl) @ ''.''
                          else response),
                     led'))"

text \<open>\<open>find_booking_by_reference(ref, context_event) if ref else get_last_booking()\<close>: the
  empty text counts as no reference.\<close>

definition resolve_booking :: "slots \<Rightarrow> context_event option \<Rightarrow> ledger \<Rightarrow> booking option" where
  "resolve_booking sl context_event led =
     (if s_reference sl \<noteq> None \<and> s_reference sl \<noteq> Some []
      then find_booking_by_reference (s_reference sl) context_event led
      else get_last_booking led)"

definition handle_cancel ::
  "env \<Rightarrow> slots \<Rightarrow> context_event option \<Rightarrow> ledger \<Rightarrow> (error + string) \<times> ledger" where
  "handle_cancel e sl context_event led =
     (case resolve_booking sl context_event led of
        Some booking \<Rightarrow>
          (Inr (''Cancelled event: '' @ [apostrophe] @ b_summary booking @ [apostrophe]
                @ '' at '' @ b_start_time booking),
           cancel_booking (b_id booking) (isoformat_naive (clock e 0)) led)
      | None \<Rightarrow> (Inr ''No matching event found to cancel.'', led))"

definition handle_edit ::
  "env \<Rightarrow> slots \<Rightarrow> context_event option \<Rightarrow> ledger \<Rightarrow> (error + string) \<times> ledger" where
  "handle_edit e sl context_event led =
     (case resolve_booking sl context_event led of
        Some booking \<Rightarrow>
          if s_ambiguity sl
          then (Inr ''Please specify the new date/time or summary for your event.'', led)
          else (case end_time_of e sl of
                  Inl err \<Rightarrow> (Inl err, led)
                | Inr end_time \<Rightarrow>
                    let start_time = the (s_datetime sl) in
                    (Inr (''Updated event to '' @ [apostrophe] @ s_summary sl @ [apostrophe]
                          @ '' at '' @ start_time @ '' ('' @ s_timezone sl @ '').''),
                     update_booking (b_id booking) (s_summary sl) start_time end_time
                       (s_timezone sl) (isoformat_naive (clock e 0)) led))
      | None \<Rightarrow> (Inr ''No matching event found to edit.'', led))"

text \<open>\<open>[b for b in bookings if dateparser.parse(b[3]) < datetime.now(pytz.UTC)]\<close> and its
  twin with \<open>>=\<close>: the clock is read once for every element; \<open>k\<close> counts the readings made
  before. Comparing \<open>None\<close> with a datetime raises TypeError.\<close>

fun select_by_clock ::
  "env \<Rightarrow> (int \<Rightarrow> int \<Rightarrow> bool) \<Rightarrow> nat \<Rightarrow> booking list \<Rightarrow> error + booking list" where
  "select_by_clock e cmp k [] = Inr []"
| "select_by_clock e cmp k (b # bs) =
     (case dateparser_parse e (b_start_time b) of
        None \<Rightarrow> Inl TypeError
      | Some dt \<Rightarrow>
          (case select_by_clock e cmp (Suc k) bs of
             Inl err \<Rightarrow> Inl err
           | Inr r \<Rightarrow> Inr (if cmp (instant dt) (instant (clock e k)) then b # r else r)))"

definition held_of :: "env \<Rightarrow> booking list \<Rightarrow> error + booking list" where
  "held_of e bookings = select_by_clock e (<) 0 bookings"

definition upcoming_of :: "env \<Rightarrow> booking list \<Rightarrow> error + booking list" where
  "upcoming_of e bookings = select_by_clock e (\<ge>) (length bookings) bookings"

definition list_section :: "env \<Rightarrow> string \<Rightarrow> booking list \<Rightarrow> error + string" where
  "list_section e heading bs =
     (if bs = [] then Inr []
      else map_sum id (\<lambda>ls. heading @ join [newline] ls) (collect (map (format_event_natural e) bs)))"

definition handle_list :: "env \<Rightarrow> ledger \<Rightarrow> error + string" where
  "handle_list e led =
     (let bookings = list_bookings ''active'' led in
      case held_of e bookings of
        Inl err \<Rightarrow> Inl err
      | Inr held \<Rightarrow>
          (case upcoming_of e bookings of
             Inl err \<Rightarrow> Inl err
           | Inr upcoming \<Rightarrow>
               if upcoming \<noteq> [] \<or> held \<noteq> [] then
                 (case list_section e (''Here are your upcoming events:'' @ [newline]) upcoming of
                    Inl err \<Rightarrow> Inl err
                  | Inr r1 \<Rightarrow>
                      (case list_section e
                              ([newline, newline] @ ''Here are your past events:'' @ [newline]) held of
                         Inl err \<Rightarrow> Inl err
                       | Inr r2 \<Rightarrow> Inr (r1 @ r2)))
               else Inr ''You have no events scheduled.''))"

definition handle_check :: "ledger \<Rightarrow> string" where
  "handle_check led =
     (let bookings = list_bookings ''active'' led in
      if bookings \<noteq> [] then
        ''You are busy at:'' @ [newline]
          @ join [newline]
              (map (\<lambda>b. b_start_time b @ '' - '' @ b_end_time b @ '' ('' @ b_timezone b @ '')'') bookings)
      else ''You are free! No events scheduled.'')"

definition help_text :: string where
  "help_text =
     ''You can ask me to book, cancel, edit, or list your events. Examples:'' @ [newline]
     @ ''- Book an event tomorrow at 10am for 1 hour with Alice'' @ [newline]
     @ ''- Cancel my last event'' @ [newline]
     @ ''- Edit my next event to Friday at 3pm'' @ [newline]
     @ ''- What are my events this week?'' @ [newline]
     @ ''- You can also use natural language like '' @ [apostrophe]
     @ ''Add a call after lunch next Monday.'' @ [apostrophe]"

definition unknown_text :: string where
  "unknown_text = ''Sorry, I didn'' @ [apostrophe] @ ''t understand. Please try again or type ''
     @ [apostrophe] @ ''help'' @ [apostrophe] @ ''.''"

text \<open>The branches of \<open>handle_user_message\<close> after the slots are extracted: the reply, or the
  exception that ends the request, and the ledger afterwards.\<close>

definition dispatch ::
  "env \<Rightarrow> string \<Rightarrow> slots \<Rightarrow> context_event option \<Rightarrow> ledger \<Rightarrow> (error + string) \<times> ledger" where
  "dispatch e intent sl context_event led =
     (if intent = ''book'' then handle_book e sl led
      else if intent = ''cancel'' then handle_cancel e sl context_event led
      else if intent = ''edit'' then handle_edit e sl context_event led
      else if intent = ''list'' then (handle_list e led, led)
      else if intent = ''check'' then (Inr (handle_check led), led)
      else if intent = ''help'' then (Inr help_text, led)
      else (Inr unknown_text, led))"

text \<open>\<open>get_context_event_from_history(messages) if messages else None\<close>; no history and an
  empty history are the empty list.\<close>

definition history_context :: "env \<Rightarrow> (string \<times> string) list \<Rightarrow> context_event option" where
  "history_context e messages =
     (if messages \<noteq> [] then get_context_event_from_history e messages else None)"

definition handle_user_message ::
  "env \<Rightarrow> string \<Rightarrow> (string \<times> string) list \<Rightarrow> ledger \<Rightarrow> (error + result) \<times> ledger" where
  "handle_user_message e user_msg messages led =
     (let context_event = history_context e messages;
          intent = extract_intent user_msg
      in case extract_slots e user_msg context_event of
           Inl err \<Rightarrow> (Inl err, led)
         | Inr sl \<Rightarrow>
             (case dispatch e intent sl context_event led of
                (Inl err, led') \<Rightarrow> (Inl err, led')
              | (Inr response, led') \<Rightarrow>
                  (Inr \<lparr>r_intent = intent, r_slots = sl, r_response = response\<rparr>, led')))"

section \<open>The calendar provider and the booking node of the graph\<close>








section \<open>Reading the formatted date back\<close>



section \<open>An environment for the examples\<close>

text \<open>
  The examples below run the agent in a fixed environment: a date search that knows the
  words "friday" and "saturday", a parser for the ISO texts that \<open>isoformat\<close> writes (whole
  seconds, with an offset), no time zone database, and a clock that stands at
  2025-07-01T09:00:00 UTC.
\<close>

definition friday_noon :: datetime where
  "friday_noon = \<lparr>year = 2025, month = 7, day = 4, hour = 12, minute = 0, second = 0,
                   microsecond = 0, utcoffset = 0\<rparr>"

definition saturday_noon :: datetime where
  "saturday_noon = friday_noon\<lparr>day := 5\<rparr>"

definition demo_search_dates :: "string \<Rightarrow> datetime option" where
  "demo_search_dates text =
     (if contains (lower text) ''friday'' then Some friday_noon
      else if contains (lower text) ''saturday'' then Some saturday_noon
      else None)"

definition parse_iso :: "string \<Rightarrow> datetime option" where
  "parse_iso s =
     (let num = (\<lambda>i n. int_of_digits (take n (drop i s)));
          sign = (if take 1 (drop 19 s) = ''-'' then - 1 else 1)
      in if length s = 25
            \<and> list_all is_digit (take 4 s @ take 2 (drop 5 s) @ take 2 (drop 8 s) @ take 2 (drop 11 s)
                 @ take 2 (drop 14 s) @ take 2 (drop 17 s) @ take 2 (drop 20 s) @ take 2 (drop 23 s))
            \<and> map (\<lambda>i. s ! i) [4, 7, 10, 13, 16, 22] = ''--T:::''
            \<and> (take 1 (drop 19 s) = ''+'' \<or> take 1 (drop 19 s) = ''-'')
         then Some \<lparr>year = num 0 4, month = num 5 2, day = num 8 2, hour = num 11 2,
                     minute = num 14 2, second = num 17 2, microsecond = 0,
                     utcoffset = sign * (num 20 2 * 60 + num 23 2)\<rparr>
         else None)"

definition demo_clock :: datetime where
  "demo_clock = \<lparr>year = 2025, month = 7, day = 1, hour = 9, minute = 0, second = 0,
                  microsecond = 0, utcoffset = 0\<rparr>"

definition demo_env :: env where
  "demo_env = \<lparr>search_dates = demo_search_dates, dateparser_parse = parse_iso,
                astimezone = (\<lambda>name dt. Inl UnknownTimeZoneError), max_str_digits = 4300,
                clock = (\<lambda>k. demo_clock)\<rparr>"

text \<open>A row that was booked and then cancelled.\<close>

definition cancelled_row :: booking where
  "cancelled_row = \<lparr>b_id = 1, b_summary = ''Event'', b_event_id = ''evt_1'',
    b_start_time = ''2025-07-04T12:00:00+00:00'', b_end_time = ''2025-07-04T12:30:00+00:00'',
    b_timezone = ''UTC'', b_status = ''cancelled'', b_created_at = ''2025-07-01T09:00:00'',
    b_updated_at = ''2025-07-01T09:05:00''\<rparr>"

text \<open>The ledger that "book friday" leaves behind on the empty ledger: one active row at
  friday noon.\<close>

definition noon_row :: booking where
  "noon_row = \<lparr>b_id = 1, b_summary = ''Event'', b_event_id = ''evt_1751360400'',
    b_start_time = ''2025-07-04T12:00:00+00:00'', b_end_time = ''2025-07-04T12:30:00+00:00'',
    b_timezone = ''UTC'', b_status = ''active'', b_created_at = ''2025-07-01T09:00:00'',
    b_updated_at = ''2025-07-01T09:00:00''\<rparr>"

definition noon_ledger :: ledger where
  "noon_ledger =
     \<lparr>rows = [noon_row], seq = 1,
      journal = [SaveBooking ''Event'' ''evt_1751360400'' ''2025-07-04T12:00:00+00:00''
                   ''2025-07-04T12:30:00+00:00'' ''UTC'']\<rparr>"

text \<open>The same environment with a clock that moves during the request: the first reading is
  friday noon, every later reading is one microsecond after it.\<close>

definition racing_env :: env where
  "racing_env =
     demo_env\<lparr>clock := (\<lambda>k. if k = 0 then friday_noon else friday_noon\<lparr>microsecond := 1\<rparr>)\<rparr>"







section \<open>Properties of the reference extraction\<close>

lemma startswith_iff: "startswith s p \<longleftrightarrow> (\<exists>r. s = p @ r)"
  by (induction s p rule: startswith.induct) auto

lemma startswith_ci_iff: "startswith_ci s p \<longleftrightarrow> startswith (lower s) p"
  by (induction s p rule: startswith_ci.induct) (auto simp: lower_def)

lemma contains_iff: "contains s w \<longleftrightarrow> (\<exists>a b. s = a @ w @ b)"
proof (induction s)
  case Nil
  then show ?case by auto
next
  case (Cons c cs)
  show ?case
  proof
    assume "contains (c # cs) w"
    then consider "startswith (c # cs) w" | "contains cs w" by auto
    then show "\<exists>a b. c # cs = a @ w @ b"
    proof cases
      case 1
      then obtain r where "c # cs = w @ r" by (auto simp: startswith_iff)
      then have "c # cs = [] @ w @ r" by simp
      then show ?thesis by blast
    next
      case 2
      then obtain a b where "cs = a @ w @ b" using Cons.IH by auto
      then have "c # cs = (c # a) @ w @ b" by simp
      then show ?thesis by blast
    qed
  next
    assume "\<exists>a b. c # cs = a @ w @ b"
    then obtain a b where ab: "c # cs = a @ w @ b" by auto
    show "contains (c # cs) w"
    proof (cases a)
      case Nil
      then have "startswith (c # cs) w" using ab by (auto simp: startswith_iff)
      then show ?thesis by simp
    next
      case (Cons x a')
      then have "cs = a' @ w @ b" using ab by simp
      then have "contains cs w" using Cons.IH by auto
      then show ?thesis by simp
    qed
  qed
qed

text \<open>
  Claim C9. When the time pattern and the summary pattern do not match and the lowercased
  message contains neither "last" nor "next", \<open>extract_reference\<close> returns "context" as soon
  as the lowercased message has "it", "that" or "this" as a substring at any position:
  \<open>lower user_msg = a @ w @ b\<close> for arbitrary \<open>a\<close> and \<open>b\<close>, so also inside a longer word.
\<close>

theorem extract_reference_context_substring:
  assumes "re_search ref_time_at user_msg = None"
    and "re_search ref_summary_at user_msg = None"
    and "\<not> contains (lower user_msg) ''last''"
    and "\<not> contains (lower user_msg) ''next''"
    and "w \<in> {''it'', ''that'', ''this''}"
    and "lower user_msg = a @ w @ b"
  shows "extract_reference user_msg = Some ''context''"
proof -
  have "contains (lower user_msg) w"
    using assms(6) contains_iff by blast
  then have "any_in [''it'', ''that'', ''this''] (lower user_msg)"
    using assms(5) by (auto simp: any_in_def)
  then show ?thesis
    using assms(1-4) by (simp add: extract_reference_def)
qed

theorem extract_reference_context_substring_witness:
  "re_search ref_time_at ''meet with Bob'' = None
   \<and> re_search ref_summary_at ''meet with Bob'' = None
   \<and> \<not> contains (lower ''meet with Bob'') ''last''
   \<and> \<not> contains (lower ''meet with Bob'') ''next''
   \<and> ''it'' \<in> {''it'', ''that'', ''this''}
   \<and> lower ''meet with Bob'' = ''meet w'' @ ''it'' @ ''h bob''
   \<and> extract_reference ''meet with Bob'' = Some ''context''"
proof -
  have h1: "re_search ref_time_at ''meet with Bob'' = None" by code_simp
  have h2: "re_search ref_summary_at ''meet with Bob'' = None" by code_simp
  have h3: "\<not> contains (lower ''meet with Bob'') ''last''" by code_simp
  have h4: "\<not> contains (lower ''meet with Bob'') ''next''" by code_simp
  have h5: "''it'' \<in> {''it'', ''that'', ''this''}" by simp
  have h6: "lower ''meet with Bob'' = ''meet w'' @ ''it'' @ ''h bob''" by code_simp
  show ?thesis
    using extract_reference_context_substring [OF h1 h2 h3 h4 h5 h6] h1 h2 h3 h4 h5 h6
    by blast
qed

section \<open>Properties of slot extraction\<close>

lemma any_in_iff: "any_in ws msg \<longleftrightarrow> (\<exists>w \<in> set ws. \<exists>a b. msg = a @ w @ b)"
  by (simp add: any_in_def list_ex_iff contains_iff)

lemma extract_slots_Inr:
  assumes "extract_slots e user_msg context_event = Inr sl"
  obtains dt where "extract_datetime e user_msg = Inr dt"
    and "s_datetime sl = map_option isoformat dt"
    and "s_ambiguity sl = (dt = None \<or> any_in vague_words (lower user_msg))"
    and "extract_duration e user_msg context_event = Inr (s_duration sl)"
    and "s_reference sl = extract_reference user_msg"
proof (cases "extract_datetime e user_msg")
  case (Inl err)
  then show ?thesis using assms by (simp add: extract_slots_def)
next
  case dt: (Inr dt)
  show ?thesis
  proof (cases "extract_duration e user_msg context_event")
    case (Inl err)
    then show ?thesis using assms dt by (simp add: extract_slots_def)
  next
    case (Inr duration)
    then have sl: "sl = \<lparr>s_datetime = map_option isoformat dt, s_duration = duration,
        s_summary = s_summary sl, s_timezone = s_timezone sl, s_attendees = s_attendees sl,
        s_ambiguity = (dt = None \<or> any_in vague_words (lower user_msg)),
        s_reference = extract_reference user_msg\<rparr>"
      using assms dt by (auto simp: extract_slots_def Let_def)
    have "s_datetime sl = map_option isoformat dt" by (subst sl) simp
    moreover have "s_ambiguity sl = (dt = None \<or> any_in vague_words (lower user_msg))"
      by (subst sl) simp
    moreover have "s_duration sl = duration" by (subst sl) simp
    moreover have "s_reference sl = extract_reference user_msg" by (subst sl) simp
    ultimately show ?thesis using that dt Inr by blast
  qed
qed

lemma extract_datetime_None:
  assumes "extract_datetime e user_msg = Inr dt"
  shows "dt = None \<longleftrightarrow> search_dates e user_msg = None"
proof (cases "search_dates e user_msg")
  case None
  then show ?thesis using assms by (simp add: extract_datetime_def)
next
  case (Some d)
  have "dt \<noteq> None"
    using assms
    by (auto simp: extract_datetime_def Some replace_hour_minute_def Let_def
             split: option.splits if_splits prod.splits)
  then show ?thesis using Some by simp
qed

text \<open>
  Claim C4. Whenever \<open>extract_slots\<close> returns a slot record, for every text and every
  context event or none, its ambiguity flag is true exactly when the date search found no
  date in the text or the lowercased text has one of the seven vague-time phrases as a
  substring; and the datetime slot of the record is absent exactly when the date search
  found no date.
\<close>

theorem extract_slots_ambiguity:
  assumes "extract_slots e user_msg context_event = Inr sl"
  shows "(s_ambiguity sl \<longleftrightarrow>
            (search_dates e user_msg = None
             \<or> (\<exists>w \<in> {''next week'', ''someday'', ''later'', ''soon'', ''whenever'', ''some time'',
                        ''not sure''}.
                  \<exists>a b. lower user_msg = a @ w @ b)))
         \<and> (s_datetime sl = None \<longleftrightarrow> search_dates e user_msg = None)"
proof -
  obtain dt where dt: "extract_datetime e user_msg = Inr dt"
    and d: "s_datetime sl = map_option isoformat dt"
    and a: "s_ambiguity sl = (dt = None \<or> any_in vague_words (lower user_msg))"
    using assms by (rule extract_slots_Inr)
  have n: "dt = None \<longleftrightarrow> search_dates e user_msg = None"
    using dt by (rule extract_datetime_None)
  have "any_in vague_words (lower user_msg) \<longleftrightarrow>
          (\<exists>w \<in> {''next week'', ''someday'', ''later'', ''soon'', ''whenever'', ''some time'',
                   ''not sure''}.
             \<exists>a b. lower user_msg = a @ w @ b)"
    unfolding any_in_iff by (simp add: vague_words_def)
  then show ?thesis using d a n by simp
qed

theorem extract_slots_ambiguity_witness:
  "extract_slots demo_env ''friday'' None =
     Inr \<lparr>s_datetime = Some ''2025-07-04T12:00:00+00:00'', s_duration = 30, s_summary = ''Event'',
          s_timezone = ''UTC'', s_attendees = [], s_ambiguity = False, s_reference = None\<rparr>
   \<and> search_dates demo_env ''friday'' \<noteq> None
   \<and> \<not> (\<exists>w \<in> {''next week'', ''someday'', ''later'', ''soon'', ''whenever'', ''some time'',
                   ''not sure''}.
            \<exists>a b. lower ''friday'' = a @ w @ b)"
proof -
  let ?sl = "\<lparr>s_datetime = Some ''2025-07-04T12:00:00+00:00'', s_duration = 30,
               s_summary = ''Event'', s_timezone = ''UTC'', s_attendees = [],
               s_ambiguity = False, s_reference = None\<rparr>"
  let ?V = "\<exists>w \<in> {''next week'', ''someday'', ''later'', ''soon'', ''whenever'', ''some time'',
                   ''not sure''}.
              \<exists>a b. lower ''friday'' = a @ w @ b"
  have h: "extract_slots demo_env ''friday'' None = Inr ?sl" by code_simp
  have f: "search_dates demo_env ''friday'' \<noteq> None" by code_simp
  have na: "\<not> s_ambiguity ?sl" by simp
  have i: "s_ambiguity ?sl \<longleftrightarrow> (search_dates demo_env ''friday'' = None \<or> ?V)"
    using extract_slots_ambiguity [OF h] by (rule conjunct1)
  have nv: "\<not> ?V"
  proof
    assume "?V"
    then have "search_dates demo_env ''friday'' = None \<or> ?V" by (rule disjI2)
    with i have "s_ambiguity ?sl" by (rule iffD2)
    with na show False by (rule notE)
  qed
  show ?thesis by (rule conjI [OF h conjI [OF f nv]])
qed

lemma re_search_Some:
  "re_search m s = Some r \<Longrightarrow> \<exists>a t. s = a @ t \<and> m t = Some r"
proof (induction s)
  case Nil
  then show ?case by auto
next
  case (Cons c cs)
  show ?case
  proof (cases "m (c # cs)")
    case None
    then have "re_search m cs = Some r" using Cons.prems by simp
    then obtain a t where "cs = a @ t" "m t = Some r" using Cons.IH by blast
    then have "c # cs = (c # a) @ t \<and> m t = Some r" by simp
    then show ?thesis by blast
  next
    case (Some r')
    then have "c # cs = [] @ (c # cs) \<and> m (c # cs) = Some r" using Cons.prems by simp
    then show ?thesis by blast
  qed
qed

lemma number_unit_at_Some:
  assumes "number_unit_at unit t = Some n"
  shows "\<exists>ws b. t = n @ ws @ b \<and> n \<noteq> [] \<and> list_all is_digit n \<and> list_all is_space ws
           \<and> startswith (lower b) unit"
proof -
  let ?d = "takeWhile is_digit t"
  let ?r = "drop (length ?d) t"
  from assms have n: "n = ?d" and ne: "?d \<noteq> []"
    and sw: "startswith (lower (dropWhile is_space ?r)) unit"
    by (auto simp: number_unit_at_def startswith_ci_iff Let_def split: if_splits)
  have "?r = dropWhile is_digit t" by (simp add: dropWhile_eq_drop)
  then have "t = ?d @ takeWhile is_space ?r @ dropWhile is_space ?r" by simp
  moreover have "list_all is_digit ?d" by (simp add: list_all_iff) (meson set_takeWhileD)
  moreover have "list_all is_space (takeWhile is_space ?r)"
    by (simp add: list_all_iff) (meson set_takeWhileD)
  ultimately show ?thesis using n ne sw by blast
qed

lemma minutes_match:
  assumes "re_search (number_unit_at ''min'') user_msg = Some n"
  shows "\<exists>a ws b. user_msg = a @ n @ ws @ b \<and> n \<noteq> [] \<and> list_all is_digit n
           \<and> list_all is_space ws \<and> startswith (lower b) ''min''"
proof -
  obtain a t where "user_msg = a @ t" "number_unit_at ''min'' t = Some n"
    using re_search_Some [OF assms] by blast
  then show ?thesis using number_unit_at_Some by blast
qed

text \<open>
  Claim C5 as stated fails: "friday 30 min then 1 hour" matches \<open><N> min\<close> with \<open>N = 30\<close>,
  the hour phrase comes later in the text, and the duration is 60, because the literal
  \<open>1 ?hour\<close> is tested before the minutes.
\<close>

theorem minutes_precedence_counterexample:
  "re_search (number_unit_at ''min'') ''friday 30 min then 1 hour'' = Some ''30''
   \<and> map_sum id s_duration (extract_slots demo_env ''friday 30 min then 1 hour'' None) = Inr 60"
  by code_simp

text \<open>
  Claim C5, amended. For every text that matches \<open><N> min\<close> and does not contain "1 hour" or
  "1hour" (in any case), the duration \<open>extract_slots\<close> returns is the \<open>N\<close> of the leftmost
  match; an \<open><N> hour\<close> phrase elsewhere in the text and the context event do not change it.
\<close>

theorem extract_slots_minutes:
  assumes "extract_slots e user_msg context_event = Inr sl"
    and "re_search (number_unit_at ''min'') user_msg = Some n"
    and "\<not> contains (lower user_msg) ''1hour''"
    and "\<not> contains (lower user_msg) ''1 hour''"
  shows "s_duration sl = int_of_digits n"
proof -
  have "extract_duration e user_msg context_event = Inr (s_duration sl)"
    using assms(1) by (rule extract_slots_Inr)
  then show ?thesis
    using assms(2-4) by (auto simp: extract_duration_def int_of_text_def split: if_splits)
qed

theorem extract_slots_minutes_witness:
  "extract_slots demo_env ''friday 45 min or 2 hours'' None =
     Inr \<lparr>s_datetime = Some ''2025-07-04T12:00:00+00:00'', s_duration = 45, s_summary = ''Event'',
          s_timezone = ''UTC'', s_attendees = [], s_ambiguity = False, s_reference = Some ''45 ''\<rparr>
   \<and> re_search (number_unit_at ''min'') ''friday 45 min or 2 hours'' = Some ''45''
   \<and> \<not> contains (lower ''friday 45 min or 2 hours'') ''1hour''
   \<and> \<not> contains (lower ''friday 45 min or 2 hours'') ''1 hour''
   \<and> s_duration \<lparr>s_datetime = Some ''2025-07-04T12:00:00+00:00'', s_duration = 45, s_summary = ''Event'',
          s_timezone = ''UTC'', s_attendees = [], s_ambiguity = False, s_reference = Some ''45 ''\<rparr>
       = int_of_digits ''45''"
proof -
  have h1: "extract_slots demo_env ''friday 45 min or 2 hours'' None =
     Inr \<lparr>s_datetime = Some ''2025-07-04T12:00:00+00:00'', s_duration = 45, s_summary = ''Event'',
          s_timezone = ''UTC'', s_attendees = [], s_ambiguity = False, s_reference = Some ''45 ''\<rparr>"
    by code_simp
  have h2: "re_search (number_unit_at ''min'') ''friday 45 min or 2 hours'' = Some ''45''"
    by code_simp
  have h3: "\<not> contains (lower ''friday 45 min or 2 hours'') ''1hour''" by code_simp
  have h4: "\<not> contains (lower ''friday 45 min or 2 hours'') ''1 hour''" by code_simp
  from extract_slots_minutes [OF h1 h2 h3 h4] h1 h2 h3 h4 show ?thesis by blast
qed

section \<open>Frame properties of the decision engine\<close>

text \<open>
  Claim C10. When the intent of the message is list, check, help or unknown, the ledger
  after \<open>handle_user_message\<close> is the ledger before: the same rows, the same key counter and
  the same record of writing calls, so no save, cancel or update call was made. The request
  yields a reply or an error and nothing else.
\<close>

theorem read_only_intents_keep_ledger:
  assumes "extract_intent user_msg \<in> {''list'', ''check'', ''help'', ''unknown''}"
  shows "snd (handle_user_message e user_msg messages led) = led"
proof -
  have d: "snd (dispatch e (extract_intent user_msg) sl c led) = led" for sl c
    using assms by (auto simp: dispatch_def)
  show ?thesis
  proof (cases "extract_slots e user_msg (history_context e messages)")
    case (Inl err)
    then show ?thesis by (simp add: handle_user_message_def)
  next
    case (Inr sl)
    then show ?thesis
      using d [of sl "history_context e messages"]
      by (auto simp: handle_user_message_def Let_def split: prod.splits sum.splits)
  qed
qed

theorem read_only_intents_keep_ledger_witness:
  "extract_intent ''what'' \<in> {''list'', ''check'', ''help'', ''unknown''}
   \<and> snd (handle_user_message demo_env ''what'' [] empty_ledger) = empty_ledger"
proof -
  have h: "extract_intent ''what'' \<in> {''list'', ''check'', ''help'', ''unknown''}"
    by code_simp
  from read_only_intents_keep_ledger [OF h] h show ?thesis by blast
qed

section \<open>Cancelling\<close>

lemma list_bookings_no_active:
  assumes "\<forall>b \<in> set (rows led). b_status b \<noteq> ''active''"
  shows "list_bookings ''active'' led = []"
proof -
  have "filter (\<lambda>b. b_status b = ''active'') (rows led) = []"
    using assms by (simp add: filter_empty_conv)
  then show ?thesis by (simp add: list_bookings_def)
qed

lemma resolve_booking_no_active:
  assumes "\<forall>b \<in> set (rows led). b_status b \<noteq> ''active''"
  shows "resolve_booking sl c led = None"
proof -
  have f: "filter (\<lambda>b. b_status b = ''active'') (rows led) = []"
    using assms by (simp add: filter_empty_conv)
  have "find_booking_by_reference r c led = None" for r
    using list_bookings_no_active [OF assms] by (simp add: find_booking_by_reference_def)
  moreover have "get_last_booking led = None"
    using f by (simp add: get_last_booking_def)
  ultimately show ?thesis by (simp add: resolve_booking_def)
qed

lemma cancel_booking_not_active:
  assumes "\<forall>b \<in> set (rows led). b_id b = i \<longrightarrow> b_status b \<noteq> ''active''"
  shows "rows (cancel_booking i now led) = rows led"
proof -
  have "map (\<lambda>b. if b_id b = i \<and> b_status b = ''active''
                   then b\<lparr>b_status := ''cancelled'', b_updated_at := now\<rparr> else b) (rows led)
        = map (\<lambda>b. b) (rows led)"
    using assms by (intro map_cong) auto
  then show ?thesis by (simp add: cancel_booking_def)
qed

text \<open>
  Claim C6. A cancel request whose reference resolves to no active booking is answered
  "No matching event found to cancel." and returns the ledger as it was. That is the case
  whenever the ledger has no active row, so on the empty ledger and when every booking is
  already cancelled. And \<open>cancel_booking\<close> on an id whose row is not active leaves every row
  as it is.
\<close>

theorem cancel_without_match:
  "(extract_intent user_msg = ''cancel''
      \<and> extract_slots e user_msg (history_context e messages) = Inr sl
      \<and> resolve_booking sl (history_context e messages) led = None
    \<longrightarrow> handle_user_message e user_msg messages led =
          (Inr \<lparr>r_intent = ''cancel'', r_slots = sl,
                r_response = ''No matching event found to cancel.''\<rparr>, led))
   \<and> ((\<forall>b \<in> set (rows led). b_status b \<noteq> ''active'') \<longrightarrow> resolve_booking sl' c led = None)
   \<and> ((\<forall>b \<in> set (rows led). b_id b = i \<longrightarrow> b_status b \<noteq> ''active'')
        \<longrightarrow> rows (cancel_booking i now led) = rows led)"
proof (intro conjI impI)
  assume a: "extract_intent user_msg = ''cancel''
      \<and> extract_slots e user_msg (history_context e messages) = Inr sl
      \<and> resolve_booking sl (history_context e messages) led = None"
  then have "dispatch e ''cancel'' sl (history_context e messages) led
             = (Inr ''No matching event found to cancel.'', led)"
    by (simp add: dispatch_def handle_cancel_def)
  then show "handle_user_message e user_msg messages led =
          (Inr \<lparr>r_intent = ''cancel'', r_slots = sl,
                r_response = ''No matching event found to cancel.''\<rparr>, led)"
    using a by (simp add: handle_user_message_def Let_def)
next
  assume "\<forall>b \<in> set (rows led). b_status b \<noteq> ''active''"
  then show "resolve_booking sl' c led = None" by (rule resolve_booking_no_active)
next
  assume "\<forall>b \<in> set (rows led). b_id b = i \<longrightarrow> b_status b \<noteq> ''active''"
  then show "rows (cancel_booking i now led) = rows led" by (rule cancel_booking_not_active)
qed

theorem cancel_without_match_witness:
  "handle_user_message demo_env ''cancel my last event'' [] empty_ledger =
     (Inr \<lparr>r_intent = ''cancel'',
           r_slots = \<lparr>s_datetime = None, s_duration = 30, s_summary = ''Event'', s_timezone = ''UTC'',
                      s_attendees = [], s_ambiguity = True, s_reference = Some ''last''\<rparr>,
           r_response = ''No matching event found to cancel.''\<rparr>, empty_ledger)
   \<and> rows (cancel_booking 1 ''2025-07-01T09:10:00'' \<lparr>rows = [cancelled_row], seq = 1, journal = []\<rparr>)
       = [cancelled_row]"
proof -
  let ?sl = "\<lparr>s_datetime = None, s_duration = 30, s_summary = ''Event'', s_timezone = ''UTC'',
               s_attendees = [], s_ambiguity = True, s_reference = Some ''last''\<rparr>"
  let ?led = "\<lparr>rows = [cancelled_row], seq = 1, journal = []\<rparr>"
  have i: "extract_intent ''cancel my last event'' = ''cancel''" by code_simp
  have s: "extract_slots demo_env ''cancel my last event'' (history_context demo_env []) = Inr ?sl"
    by code_simp
  have n: "\<forall>b \<in> set (rows empty_ledger). b_status b \<noteq> ''active''"
    by (simp add: empty_ledger_def)
  have c: "\<forall>b \<in> set (rows ?led). b_id b = 1 \<longrightarrow> b_status b \<noteq> ''active''"
    by (simp add: cancelled_row_def)
  note t = cancel_without_match [of "''cancel my last event''" demo_env "[]" ?sl empty_ledger]
  from t [of ?sl "history_context demo_env []"] i s n
  have "handle_user_message demo_env ''cancel my last event'' [] empty_ledger =
     (Inr \<lparr>r_intent = ''cancel'', r_slots = ?sl,
           r_response = ''No matching event found to cancel.''\<rparr>, empty_ledger)"
    by blast
  moreover from cancel_without_match [of _ _ _ _ ?led _ _ 1 "''2025-07-01T09:10:00''"] c
  have "rows (cancel_booking 1 ''2025-07-01T09:10:00'' ?led) = rows ?led" by blast
  ultimately show ?thesis by simp
qed

section \<open>Booking\<close>

lemma list_bookings_status: "b \<in> set (list_bookings status led) \<Longrightarrow> b_status b = status"
  by (simp add: list_bookings_def)

lemma end_time_of_Inr:
  assumes "end_time_of e sl = Inr end_time"
  obtains start_time where "s_datetime sl = Some start_time"
  using assms by (cases "s_datetime sl") (simp_all add: end_time_of_def)

lemma handle_book_collision:
  assumes "\<not> s_ambiguity sl" and "end_time_of e sl = Inr end_time"
    and "s_datetime sl = Some start_time"
    and "\<exists>b \<in> set (list_bookings ''active'' led). b_start_time b = start_time"
  shows "handle_book e sl led = (Inr ''You already have an event at that time.'', led)"
proof -
  have "list_ex (\<lambda>b. b_start_time b = start_time \<and> b_status b = ''active'')
          (list_bookings ''active'' led)"
    using assms(4) list_bookings_status by (auto simp: list_ex_iff)
  then show ?thesis using assms(1-3) by (simp add: handle_book_def)
qed

lemma handle_book_insert:
  assumes "\<not> s_ambiguity sl" and "end_time_of e sl = Inr end_time"
    and "s_datetime sl = Some start_time"
    and "\<not> (\<exists>b \<in> set (list_bookings ''active'' led). b_start_time b = start_time)"
  shows "\<exists>response.
           handle_book e sl led =
             (Inr response,
              save_booking (s_summary sl) (''evt_'' @ str_int (timestamp_seconds (clock e 0)))
                start_time end_time (s_timezone sl) (isoformat_naive (clock e 1)) led)"
proof -
  have "\<not> list_ex (\<lambda>b. b_start_time b = start_time \<and> b_status b = ''active'')
            (list_bookings ''active'' led)"
    using assms(4) by (auto simp: list_ex_iff)
  then show ?thesis using assms(1-3) by (auto simp: handle_book_def Let_def)
qed

lemma rows_save_booking:
  "\<exists>b. rows (save_booking summary event_id start_time end_time timezone now led) = rows led @ [b]
       \<and> b_status b = ''active'' \<and> b_start_time b = start_time \<and> b_end_time b = end_time
       \<and> b_summary b = summary \<and> b_timezone b = timezone"
  by (simp add: save_booking_def)

text \<open>
  Claim C2 as stated fails: "book friday 99999999999 min" is a book request, its ambiguity
  flag is false and no active booking has its start time, yet no record is inserted: the
  end time, start plus duration, lies beyond the year 9999, the sum raises OverflowError
  and the request ends there, with the ledger as it was.
\<close>

theorem book_overflow_counterexample:
  "extract_intent ''book friday 99999999999 min'' = ''book''
   \<and> map_sum id s_ambiguity
         (extract_slots demo_env ''book friday 99999999999 min'' (history_context demo_env []))
       = Inr False
   \<and> list_bookings ''active'' empty_ledger = []
   \<and> handle_user_message demo_env ''book friday 99999999999 min'' [] empty_ledger
       = (Inl OverflowError, empty_ledger)"
  by code_simp

text \<open>
  Claim C2, amended. For every book request whose ambiguity flag is false and whose end time
  can be computed (\<open>dateparser.parse\<close> reads the start text back and start plus duration is
  a date): if an active booking has the extracted start time, the reply is "You already have
  an event at that time." and the ledger is returned as it was; otherwise the rows
  afterwards are the rows before followed by exactly one new row, which is active and has
  the extracted start time, the computed end time, the summary and the time zone.
\<close>

theorem book_collision_or_insert:
  assumes "extract_intent user_msg = ''book''"
    and "extract_slots e user_msg (history_context e messages) = Inr sl"
    and "\<not> s_ambiguity sl"
    and "end_time_of e sl = Inr end_time"
  shows "\<exists>start_time. s_datetime sl = Some start_time
           \<and> ((\<exists>b \<in> set (list_bookings ''active'' led). b_start_time b = start_time)
                \<longrightarrow> handle_user_message e user_msg messages led =
                      (Inr \<lparr>r_intent = ''book'', r_slots = sl,
                            r_response = ''You already have an event at that time.''\<rparr>, led))
           \<and> (\<not> (\<exists>b \<in> set (list_bookings ''active'' led). b_start_time b = start_time)
                \<longrightarrow> (\<exists>b. rows (snd (handle_user_message e user_msg messages led)) = rows led @ [b]
                         \<and> b_status b = ''active'' \<and> b_start_time b = start_time
                         \<and> b_end_time b = end_time \<and> b_summary b = s_summary sl
                         \<and> b_timezone b = s_timezone sl))"
proof -
  obtain start_time where st: "s_datetime sl = Some start_time"
    using assms(4) by (rule end_time_of_Inr)
  have h: "handle_user_message e user_msg messages led =
             (case handle_book e sl led of
                (Inl err, led') \<Rightarrow> (Inl err, led')
              | (Inr response, led') \<Rightarrow>
                  (Inr \<lparr>r_intent = ''book'', r_slots = sl, r_response = response\<rparr>, led'))"
    using assms(1,2) by (simp add: handle_user_message_def Let_def dispatch_def)
  have "handle_user_message e user_msg messages led =
          (Inr \<lparr>r_intent = ''book'', r_slots = sl,
                r_response = ''You already have an event at that time.''\<rparr>, led)"
    if "\<exists>b \<in> set (list_bookings ''active'' led). b_start_time b = start_time"
    using handle_book_collision [OF assms(3,4) st that] h by simp
  moreover have "\<exists>b. rows (snd (handle_user_message e user_msg messages led)) = rows led @ [b]
                   \<and> b_status b = ''active'' \<and> b_start_time b = start_time
                   \<and> b_end_time b = end_time \<and> b_summary b = s_summary sl
                   \<and> b_timezone b = s_timezone sl"
    if nb: "\<not> (\<exists>b \<in> set (list_bookings ''active'' led). b_start_time b = start_time)"
  proof -
    let ?led' = "save_booking (s_summary sl) (''evt_'' @ str_int (timestamp_seconds (clock e 0)))
                   start_time end_time (s_timezone sl) (isoformat_naive (clock e 1)) led"
    obtain response where "handle_book e sl led = (Inr response, ?led')"
      using handle_book_insert [OF assms(3,4) st nb] by blast
    then have "snd (handle_user_message e user_msg messages led) = ?led'"
      using h by simp
    then show ?thesis using rows_save_booking by simp
  qed
  ultimately show ?thesis using st by blast
qed

theorem book_collision_or_insert_witness:
  "extract_intent ''book friday'' = ''book''
   \<and> extract_slots demo_env ''book friday'' (history_context demo_env []) =
       Inr \<lparr>s_datetime = Some ''2025-07-04T12:00:00+00:00'', s_duration = 30, s_summary = ''Event'',
            s_timezone = ''UTC'', s_attendees = [], s_ambiguity = False, s_reference = None\<rparr>
   \<and> end_time_of demo_env
        \<lparr>s_datetime = Some ''2025-07-04T12:00:00+00:00'', s_duration = 30, s_summary = ''Event'',
         s_timezone = ''UTC'', s_attendees = [], s_ambiguity = False, s_reference = None\<rparr>
       = Inr ''2025-07-04T12:30:00+00:00''
   \<and> (\<exists>b. rows (snd (handle_user_message demo_env ''book friday'' [] empty_ledger)) = [b]
          \<and> b_status b = ''active'' \<and> b_start_time b = ''2025-07-04T12:00:00+00:00''
          \<and> b_end_time b = ''2025-07-04T12:30:00+00:00'')
   \<and> handle_user_message demo_env ''book friday'' [] noon_ledger =
       (Inr \<lparr>r_intent = ''book'',
             r_slots = \<lparr>s_datetime = Some ''2025-07-04T12:00:00+00:00'', s_duration = 30,
                        s_summary = ''Event'', s_timezone = ''UTC'', s_attendees = [],
                        s_ambiguity = False, s_reference = None\<rparr>,
             r_response = ''You already have an event at that time.''\<rparr>, noon_ledger)"
proof -
  let ?sl = "\<lparr>s_datetime = Some ''2025-07-04T12:00:00+00:00'', s_duration = 30,
               s_summary = ''Event'', s_timezone = ''UTC'', s_attendees = [],
               s_ambiguity = False, s_reference = None\<rparr>"
  have i: "extract_intent ''book friday'' = ''book''" by code_simp
  have s: "extract_slots demo_env ''book friday'' (history_context demo_env []) = Inr ?sl"
    by code_simp
  have a: "\<not> s_ambiguity ?sl" by simp
  have t: "end_time_of demo_env ?sl = Inr ''2025-07-04T12:30:00+00:00''" by code_simp
  have n: "list_bookings ''active'' empty_ledger = []" by code_simp
  have r: "rows empty_ledger = []" by (simp add: empty_ledger_def)
  have lb: "list_bookings ''active'' noon_ledger = [noon_row]" by code_simp
  have c: "\<exists>b \<in> set (list_bookings ''active'' noon_ledger).
             b_start_time b = ''2025-07-04T12:00:00+00:00''"
    unfolding lb by (simp add: noon_row_def)
  from book_collision_or_insert [OF i s a t, of empty_ledger] n r
  have ins: "\<exists>b. rows (snd (handle_user_message demo_env ''book friday'' [] empty_ledger)) = [b]
          \<and> b_status b = ''active'' \<and> b_start_time b = ''2025-07-04T12:00:00+00:00''
          \<and> b_end_time b = ''2025-07-04T12:30:00+00:00''"
    by auto
  from book_collision_or_insert [OF i s a t, of noon_ledger] c
  have col: "handle_user_message demo_env ''book friday'' [] noon_ledger =
       (Inr \<lparr>r_intent = ''book'', r_slots = ?sl,
             r_response = ''You already have an event at that time.''\<rparr>, noon_ledger)"
    by auto
  show ?thesis by (rule conjI [OF i conjI [OF s conjI [OF t conjI [OF ins col]]]])
qed

section \<open>The invariant of the ledger\<close>

text \<open>
  Claim C1. The invariant does not hold on the edit path. From the empty ledger, "book an
  event on friday at noon" and "book an event on saturday at noon" insert two active rows;
  "move my last event to friday at noon" then resolves to the saturday row and rewrites its
  start time: \<open>handle_user_message\<close> calls \<open>update_booking\<close> without the scan of the active
  bookings that the book path makes before \<open>save_booking\<close>. The ledger reached has two active
  rows with the start time 2025-07-04T12:00:00+00:00.
\<close>

theorem edit_duplicates_active_start_time:
  "map (\<lambda>b. (b_id b, b_start_time b, b_status b))
     (rows (snd (handle_user_message demo_env ''move my last event to friday at noon'' []
        (snd (handle_user_message demo_env ''book an event on saturday at noon'' []
          (snd (handle_user_message demo_env ''book an event on friday at noon'' []
             empty_ledger)))))))
   = [(1, ''2025-07-04T12:00:00+00:00'', ''active''),
      (2, ''2025-07-04T12:00:00+00:00'', ''active'')]"
  by code_simp

section \<open>Listing\<close>

text \<open>With a clock that stands still during the request, the held bookings are those that
  start before its instant and the upcoming bookings those that start at or after it.\<close>

lemma select_by_clock_frozen:
  assumes "\<And>k. instant (clock e k) = now"
    and "select_by_clock e cmp k bs = Inr r"
  shows "r = filter (\<lambda>b. \<exists>dt. dateparser_parse e (b_start_time b) = Some dt \<and> cmp (instant dt) now) bs"
  using assms(2)
proof (induction bs arbitrary: k r)
  case Nil
  then show ?case by simp
next
  case (Cons b bs)
  then show ?case
    by (auto simp: assms(1) split: option.splits sum.splits)
qed

lemma frozen_clock_partition:
  assumes "\<And>k. instant (clock e k) = now"
    and "held_of e bookings = Inr held"
    and "upcoming_of e bookings = Inr upcoming"
  shows "held = filter (\<lambda>b. \<exists>dt. dateparser_parse e (b_start_time b) = Some dt \<and> instant dt < now) bookings"
    and "upcoming = filter (\<lambda>b. \<exists>dt. dateparser_parse e (b_start_time b) = Some dt \<and> instant dt \<ge> now) bookings"
  using assms select_by_clock_frozen [of e now] by (simp_all add: held_of_def upcoming_of_def)

text \<open>
  Claim C3. The two sections do not partition the bookings when the clock moves during the
  request: each list comprehension reads \<open>datetime.now(pytz.UTC)\<close> again for every booking.
  The ledger has one active booking, whose start time is the time of the first reading;
  it is not before that reading, so it is not held, and when the second comprehension
  reads the clock one microsecond later it is not at or after that reading either. The
  booking appears in neither section and the reply is "You have no events scheduled.".
\<close>

theorem list_drops_booking_at_now:
  "list_bookings ''active'' noon_ledger = [noon_row]
   \<and> dateparser_parse racing_env (b_start_time noon_row) = Some (clock racing_env 0)
   \<and> map_sum id r_response (fst (handle_user_message racing_env ''list my events'' [] noon_ledger))
       = Inr ''You have no events scheduled.''"
  by code_simp

section \<open>The calendar provider\<close>




section \<open>The round trip of the formatted date\<close>















end
